theory Spec2Isabelle
  imports Main
begin

section \<open>The abstract syntax of \<^verbatim>\<open>src/sample/app.py\<close>\<close>

text \<open>
  The repository is one Python file, a fixture that a scanner reads. Its properties are
  properties of what the file declares, so the file is embedded as the syntax tree that
  Python's own \<^verbatim>\<open>ast.parse\<close> gives for it. The node names are those of the
  \<^verbatim>\<open>ast\<close> module, restricted to the node kinds the file uses:

  \<^item> \<open>Name id ctx\<close>, \<open>Attribute value attr ctx\<close> and \<open>Subscript value slice ctx\<close>
    carry the context (\<open>Load\<close> when the name is read, \<open>Store\<close> when it is bound);
  \<^item> \<open>Constant\<close> holds a string or a number;
  \<^item> \<open>JoinedStr\<close> is an f-string: its parts are \<open>Constant\<close> pieces of text and
    \<open>FormattedValue\<close> replacement fields;
  \<^item> \<open>GeneratorExp elt target iter\<close> is a generator expression with one \<^verbatim>\<open>for\<close>
    clause and no condition, the only form in the file;
  \<^item> \<open>Dict keys values\<close> keeps the keys and the values in two lists, as \<^verbatim>\<open>ast.Dict\<close> does.
\<close>

datatype ctx = Load | Store

datatype pyconst = Str string | Num int

datatype expr =
    Name string ctx
  | Constant pyconst
  | JoinedStr "expr list"
  | FormattedValue expr
  | Attribute expr string ctx
  | Subscript expr expr ctx
  | Call expr "expr list"
  | GeneratorExp expr expr expr
  | Await expr
  | List "expr list"
  | Dict "expr list" "expr list"

text \<open>A parameter: its name and its annotation, if it has one.\<close>

datatype arg = Arg string "expr option"

text \<open>
  Statements. \<open>FunctionDef name args returns body\<close> and \<open>AsyncFunctionDef\<close> list the
  fields in the order the source writes them; \<open>ClassDef name bases body\<close>;
  \<open>Assign target value\<close> has the single target every assignment of the file has;
  \<open>AsyncWith context_expr optional_vars body\<close> has the single item every
  \<^verbatim>\<open>async with\<close> of the file has.
\<close>

datatype stmt =
    Import "string list"
  | ImportFrom string "string list"
  | FunctionDef string "arg list" "expr option" "stmt list"
  | AsyncFunctionDef string "arg list" "expr option" "stmt list"
  | ClassDef string "expr list" "stmt list"
  | Assign expr expr
  | Return "expr option"
  | Expr expr
  | Pass
  | AsyncWith expr "expr option" "stmt list"

subsection \<open>The declarations of the file, in source order\<close>

text \<open>Lines 10 to 12.\<close>

definition calculate_total_def_stmt :: stmt where
  "calculate_total_def_stmt =
     FunctionDef ''calculate_total'' [Arg ''items'' None] None
       [Expr (Constant (Str ''Calculate total price of items.'')),
        Return (Some (Call (Name ''sum'' Load)
          [GeneratorExp (Attribute (Name ''item'' Load) ''price'' Load)
             (Name ''item'' Store) (Name ''items'' Load)]))]"

text \<open>Lines 14 to 17.\<close>

definition process_user_data_def_stmt :: stmt where
  "process_user_data_def_stmt =
     FunctionDef ''process_user_data'' [Arg ''user_id'' (Some (Name ''int'' Load))]
       (Some (Name ''Dict'' Load))
       [Expr (Constant (Str ''Process user data from API.'')),
        Assign (Name ''response'' Store)
          (Call (Attribute (Name ''requests'' Load) ''get'' Load)
             [JoinedStr [Constant (Str ''/api/users/''),
                         FormattedValue (Name ''user_id'' Load)]]),
        Return (Some (Call (Attribute (Name ''response'' Load) ''json'' Load) []))]"

text \<open>Lines 19 to 23.\<close>

definition fetch_data_def_stmt :: stmt where
  "fetch_data_def_stmt =
     AsyncFunctionDef ''fetch_data'' [Arg ''url'' (Some (Name ''str'' Load))]
       (Some (Subscript (Name ''Optional'' Load) (Name ''str'' Load) Load))
       [Expr (Constant (Str ''Async function to fetch data.'')),
        AsyncWith (Call (Attribute (Name ''aiohttp'' Load) ''ClientSession'' Load) [])
          (Some (Name ''session'' Store))
          [AsyncWith (Call (Attribute (Name ''session'' Load) ''get'' Load)
                        [Name ''url'' Load])
             (Some (Name ''response'' Store))
             [Return (Some (Await
                (Call (Attribute (Name ''response'' Load) ''text'' Load) [])))]]]"

text \<open>Lines 26 to 36.\<close>

definition UserManager_def_stmt :: stmt where
  "UserManager_def_stmt =
     ClassDef ''UserManager'' []
       [Expr (Constant (Str ''Manages user operations.'')),
        FunctionDef ''__init__''
          [Arg ''self'' None, Arg ''name'' (Some (Name ''str'' Load)),
           Arg ''email'' (Some (Name ''str'' Load))]
          None
          [Assign (Attribute (Name ''self'' Load) ''name'' Store) (Name ''name'' Load),
           Assign (Attribute (Name ''self'' Load) ''email'' Store) (Name ''email'' Load),
           Assign (Attribute (Name ''self'' Load) ''created_at'' Store)
             (Call (Attribute (Name ''datetime'' Load) ''now'' Load) [])],
        FunctionDef ''get_name'' [Arg ''self'' None] (Some (Name ''str'' Load))
          [Expr (Constant (Str ''Get user name.'')),
           Return (Some (Attribute (Name ''self'' Load) ''name'' Load))]]"

text \<open>Lines 38 to 43.\<close>

definition DatabaseConnection_def_stmt :: stmt where
  "DatabaseConnection_def_stmt =
     ClassDef ''DatabaseConnection'' []
       [Expr (Constant (Str ''Handles database connections.'')),
        FunctionDef ''connect'' [Arg ''self'' None] None
          [Expr (Constant (Str ''Connect to database.'')),
           Pass]]"

text \<open>
  The two raw strings of lines 56 and 57. A raw string keeps its backslashes, written
  here as the character \<open>0x5C\<close>.
\<close>

abbreviation (input) bsl :: string where
  "bsl \<equiv> [CHR 0x5C]"

definition email_pattern_text :: string where
  "email_pattern_text =
     bsl @ ''b[A-Za-z0-9._%+-]+@[A-Za-z0-9.-]+'' @ bsl @ ''.[A-Z|a-z]{2,}'' @ bsl @ ''b''"

definition phone_pattern_text :: string where
  "phone_pattern_text =
     ''^'' @ bsl @ ''+?['' @ bsl @ ''d'' @ bsl @ ''s'' @ bsl @ ''-'' @ bsl @ ''('' @ bsl @ '')]+$''"

text \<open>The whole module: the top-level statements of lines 4 to 64.\<close>

definition app_module :: "stmt list" where
  "app_module =
     [Import [''os''],
      Import [''json''],
      ImportFrom ''typing'' [''List'', ''Dict'', ''Optional''],
      ImportFrom ''datetime'' [''datetime''],
      calculate_total_def_stmt,
      process_user_data_def_stmt,
      fetch_data_def_stmt,
      UserManager_def_stmt,
      DatabaseConnection_def_stmt,
      Assign (Name ''welcome_message'' Store) (Constant (Str ''Welcome to the application'')),
      Assign (Name ''api_url'' Store) (Constant (Str ''https://api.example.com/v1'')),
      Assign (Name ''template'' Store)
        (JoinedStr [Constant (Str ''Hello, ''), FormattedValue (Name ''name'' Load),
                    Constant (Str ''!'')]),
      Assign (Name ''MAX_USERS'' Store) (Constant (Num 1000)),
      Assign (Name ''api_version'' Store) (Constant (Str ''2.0.1'')),
      Assign (Name ''user_ids'' Store)
        (List [Constant (Num 101), Constant (Num 102), Constant (Num 103),
               Constant (Num 204), Constant (Num 305)]),
      Assign (Name ''email_pattern'' Store) (Constant (Str email_pattern_text)),
      Assign (Name ''phone_pattern'' Store) (Constant (Str phone_pattern_text)),
      Assign (Name ''config'' Store)
        (Dict [Constant (Str ''static_path''), Constant (Str ''asset_path''),
               Constant (Str ''data_path'')]
              [Constant (Str ''./static''), Constant (Str ''/assets/images''),
               Constant (Str ''../data/records.json'')])]"

subsection \<open>What the module defines at its top level\<close>

text \<open>
  A function is defined at the top level when its \<^verbatim>\<open>def\<close> or \<^verbatim>\<open>async def\<close> is a
  statement of the module itself; a method is a statement of a class body and is not
  looked at.
\<close>

fun function_name :: "stmt \<Rightarrow> string option" where
  "function_name (FunctionDef name args returns body) = Some name"
| "function_name (AsyncFunctionDef name args returns body) = Some name"
| "function_name _ = None"

fun class_name :: "stmt \<Rightarrow> string option" where
  "class_name (ClassDef name bases body) = Some name"
| "class_name _ = None"

definition top_level_functions :: "stmt list \<Rightarrow> string list" where
  "top_level_functions body = List.map_filter function_name body"

definition top_level_classes :: "stmt list \<Rightarrow> string list" where
  "top_level_classes body = List.map_filter class_name body"

subsection \<open>String literals and identifiers\<close>

text \<open>
  The string literals of an expression, in the order of the fields. An f-string is not a
  constant: its text pieces are no literals of their own, only what its replacement
  fields contain is looked at.
\<close>

fun is_text_piece :: "expr \<Rightarrow> bool" where
  "is_text_piece (Constant c) = True"
| "is_text_piece _ = False"

fun strings_expr :: "expr \<Rightarrow> string list" where
  "strings_expr (Name n c) = []"
| "strings_expr (Constant (Str s)) = [s]"
| "strings_expr (Constant (Num k)) = []"
| "strings_expr (JoinedStr parts) =
     concat (map (\<lambda>p. if is_text_piece p then [] else strings_expr p) parts)"
| "strings_expr (FormattedValue e) = strings_expr e"
| "strings_expr (Attribute e a c) = strings_expr e"
| "strings_expr (Subscript e i c) = strings_expr e @ strings_expr i"
| "strings_expr (Call f args) = strings_expr f @ concat (map strings_expr args)"
| "strings_expr (GeneratorExp elt target iter) =
     strings_expr elt @ strings_expr target @ strings_expr iter"
| "strings_expr (Await e) = strings_expr e"
| "strings_expr (List es) = concat (map strings_expr es)"
| "strings_expr (Dict ks vs) = concat (map strings_expr ks) @ concat (map strings_expr vs)"

text \<open>
  The identifiers an expression mentions: the names it reads or binds and the attribute
  names it selects.
\<close>

fun identifiers_expr :: "expr \<Rightarrow> string list" where
  "identifiers_expr (Name n c) = [n]"
| "identifiers_expr (Constant c) = []"
| "identifiers_expr (JoinedStr parts) = concat (map identifiers_expr parts)"
| "identifiers_expr (FormattedValue e) = identifiers_expr e"
| "identifiers_expr (Attribute e a c) = identifiers_expr e @ [a]"
| "identifiers_expr (Subscript e i c) = identifiers_expr e @ identifiers_expr i"
| "identifiers_expr (Call f args) = identifiers_expr f @ concat (map identifiers_expr args)"
| "identifiers_expr (GeneratorExp elt target iter) =
     identifiers_expr elt @ identifiers_expr target @ identifiers_expr iter"
| "identifiers_expr (Await e) = identifiers_expr e"
| "identifiers_expr (List es) = concat (map identifiers_expr es)"
| "identifiers_expr (Dict ks vs) =
     concat (map identifiers_expr ks) @ concat (map identifiers_expr vs)"

text \<open>
  Every expression of a statement, in source order, with the expressions of the
  statements nested in it: the annotations of a definition before its body, the value
  of an assignment before its target (the order of evaluation).
\<close>

fun annotations :: "arg list \<Rightarrow> expr option \<Rightarrow> expr list" where
  "annotations args returns =
     concat (map (\<lambda>a. case a of Arg n ann \<Rightarrow> (case ann of None \<Rightarrow> [] | Some e \<Rightarrow> [e])) args)
     @ (case returns of None \<Rightarrow> [] | Some e \<Rightarrow> [e])"

fun exprs_stmt :: "stmt \<Rightarrow> expr list" where
  "exprs_stmt (Import names) = []"
| "exprs_stmt (ImportFrom m names) = []"
| "exprs_stmt (FunctionDef name args returns body) =
     annotations args returns @ concat (map exprs_stmt body)"
| "exprs_stmt (AsyncFunctionDef name args returns body) =
     annotations args returns @ concat (map exprs_stmt body)"
| "exprs_stmt (ClassDef name bases body) = bases @ concat (map exprs_stmt body)"
| "exprs_stmt (Assign target v) = [v, target]"
| "exprs_stmt (Return r) = (case r of None \<Rightarrow> [] | Some e \<Rightarrow> [e])"
| "exprs_stmt (Expr e) = [e]"
| "exprs_stmt Pass = []"
| "exprs_stmt (AsyncWith c vars body) =
     c # (case vars of None \<Rightarrow> [] | Some v \<Rightarrow> [v]) @ concat (map exprs_stmt body)"

definition exprs_of :: "stmt list \<Rightarrow> expr list" where
  "exprs_of body = concat (map exprs_stmt body)"

definition string_literals :: "stmt list \<Rightarrow> string list" where
  "string_literals body = concat (map strings_expr (exprs_of body))"

definition mentioned :: "stmt list \<Rightarrow> string list" where
  "mentioned body = concat (map identifiers_expr (exprs_of body))"

text \<open>
  The functions declared with \<^verbatim>\<open>async def\<close>, at any depth: at the top level, in a
  class body, or nested in another function.
\<close>

fun async_functions_stmt :: "stmt \<Rightarrow> string list" where
  "async_functions_stmt (FunctionDef name args returns body) =
     concat (map async_functions_stmt body)"
| "async_functions_stmt (AsyncFunctionDef name args returns body) =
     name # concat (map async_functions_stmt body)"
| "async_functions_stmt (ClassDef name bases body) = concat (map async_functions_stmt body)"
| "async_functions_stmt (AsyncWith c vars body) = concat (map async_functions_stmt body)"
| "async_functions_stmt _ = []"

definition async_functions :: "stmt list \<Rightarrow> string list" where
  "async_functions body = concat (map async_functions_stmt body)"

subsection \<open>Function bodies\<close>

text \<open>
  Every function of the file with its qualified name, whether it is declared with
  \<^verbatim>\<open>async def\<close>, its parameters and its body: a method is \<^verbatim>\<open>Class.method\<close>, a
  function nested in a function is \<^verbatim>\<open>outer.<locals>.inner\<close>, as Python's
  \<^verbatim>\<open>__qualname__\<close> has it.
\<close>

fun functions_stmt :: "string \<Rightarrow> stmt \<Rightarrow> (string \<times> bool \<times> arg list \<times> stmt list) list" where
  "functions_stmt q (FunctionDef name args returns body) =
     (q @ name, False, args, body)
       # concat (map (functions_stmt (q @ name @ ''.<locals>.'')) body)"
| "functions_stmt q (AsyncFunctionDef name args returns body) =
     (q @ name, True, args, body)
       # concat (map (functions_stmt (q @ name @ ''.<locals>.'')) body)"
| "functions_stmt q (ClassDef name bases body) =
     concat (map (functions_stmt (q @ name @ ''.'')) body)"
| "functions_stmt q (AsyncWith c vars body) = concat (map (functions_stmt q) body)"
| "functions_stmt q _ = []"

definition function_defs :: "stmt list \<Rightarrow> (string \<times> bool \<times> arg list \<times> stmt list) list" where
  "function_defs body = concat (map (functions_stmt []) body)"

text \<open>A body without its docstring.\<close>

fun strip_docstring :: "stmt list \<Rightarrow> stmt list" where
  "strip_docstring (Expr (Constant (Str d)) # body) = body"
| "strip_docstring body = body"

text \<open>
  The first two shapes of a body: one \<^verbatim>\<open>return\<close> of an expression and nothing else,
  or \<^verbatim>\<open>pass\<close> and nothing else.
\<close>

definition returns_expression :: "stmt list \<Rightarrow> bool" where
  "returns_expression body =
     (case strip_docstring body of [Return (Some e)] \<Rightarrow> True | _ \<Rightarrow> False)"

definition is_stub :: "stmt list \<Rightarrow> bool" where
  "is_stub body = (strip_docstring body = [Pass])"

text \<open>
  The names a target binds, and the names an expression reads in the scope it stands
  in. The variable of a generator expression is bound inside the generator only, so the
  element expression reads it from there and not from the enclosing scope.
\<close>

fun stored :: "expr \<Rightarrow> string list" where
  "stored (Name n Store) = [n]"
| "stored _ = []"

fun reads :: "expr \<Rightarrow> string list" where
  "reads (Name n Load) = [n]"
| "reads (Name n Store) = []"
| "reads (Constant c) = []"
| "reads (JoinedStr parts) = concat (map reads parts)"
| "reads (FormattedValue e) = reads e"
| "reads (Attribute e a c) = reads e"
| "reads (Subscript e i c) = reads e @ reads i"
| "reads (Call f args) = reads f @ concat (map reads args)"
| "reads (GeneratorExp elt target iter) =
     reads iter @ filter (\<lambda>n. n \<notin> set (stored target)) (reads elt)"
| "reads (Await e) = reads e"
| "reads (List es) = concat (map reads es)"
| "reads (Dict ks vs) = concat (map reads ks) @ concat (map reads vs)"

text \<open>
  The names a statement binds in the scope it runs in, and the expressions it
  evaluates in that scope. The body of a nested definition or class is a scope of its
  own and is left out; the body of \<^verbatim>\<open>async with\<close> runs in the same scope.
\<close>

fun binds :: "stmt \<Rightarrow> string list" where
  "binds (Import names) = names"
| "binds (ImportFrom m names) = names"
| "binds (FunctionDef name args returns body) = [name]"
| "binds (AsyncFunctionDef name args returns body) = [name]"
| "binds (ClassDef name bases body) = [name]"
| "binds (Assign target v) = stored target"
| "binds (AsyncWith c vars body) =
     (case vars of None \<Rightarrow> [] | Some v \<Rightarrow> stored v) @ concat (map binds body)"
| "binds _ = []"

fun scope_exprs :: "stmt \<Rightarrow> expr list" where
  "scope_exprs (FunctionDef name args returns body) = annotations args returns"
| "scope_exprs (AsyncFunctionDef name args returns body) = annotations args returns"
| "scope_exprs (ClassDef name bases body) = bases"
| "scope_exprs (Assign target v) = [v, target]"
| "scope_exprs (Return r) = (case r of None \<Rightarrow> [] | Some e \<Rightarrow> [e])"
| "scope_exprs (Expr e) = [e]"
| "scope_exprs (AsyncWith c vars body) =
     c # (case vars of None \<Rightarrow> [] | Some v \<Rightarrow> [v]) @ concat (map scope_exprs body)"
| "scope_exprs _ = []"

fun arg_name :: "arg \<Rightarrow> string" where
  "arg_name (Arg n ann) = n"

text \<open>
  The third shape: the body reads a name that is defined nowhere. A name is defined for
  a function body when it is a parameter, a name the body binds, a name a top-level
  statement of the module binds (an import, a definition, a class, an assignment) or a
  built-in name. The built-in names belong to the interpreter and not to the file: they
  are the parameter \<open>B\<close>.
\<close>

definition undefined_names :: "string set \<Rightarrow> stmt list \<Rightarrow> arg list \<Rightarrow> stmt list \<Rightarrow> string list" where
  "undefined_names B m args body =
     filter (\<lambda>n. n \<notin> set (map arg_name args) \<and> n \<notin> set (concat (map binds body)) \<and>
                 n \<notin> set (concat (map binds m)) \<and> n \<notin> B)
       (concat (map reads (concat (map scope_exprs body))))"

definition three_shapes :: "string set \<Rightarrow> stmt list \<Rightarrow>
    string \<times> bool \<times> arg list \<times> stmt list \<Rightarrow> bool" where
  "three_shapes B m f =
     (case f of (q, is_async, args, body) \<Rightarrow>
        returns_expression body \<or> is_stub body \<or> undefined_names B m args body \<noteq> [])"

text \<open>What a body is, for each of the three shapes.\<close>

definition shape_of :: "string set \<Rightarrow> stmt list \<Rightarrow>
    string \<times> bool \<times> arg list \<times> stmt list \<Rightarrow> string \<times> bool \<times> bool \<times> string list" where
  "shape_of B m f =
     (case f of (q, is_async, args, body) \<Rightarrow>
        (q, returns_expression body, is_stub body, undefined_names B m args body))"

section \<open>Running the module\<close>

text \<open>
  What happens when Python executes the statements of the file depends on one thing
  only: which names are bound when a name is read. The model therefore keeps the set
  of bound names and no values. An import binds its names, a definition evaluates its
  annotations and binds its name, a class executes its body in a namespace of its own
  and binds its name, an assignment evaluates its value and binds its target; reading a
  name that is bound neither in the scope nor among the built-in names raises
  \<^verbatim>\<open>NameError\<close>. Annotations are evaluated when the definition is executed, as
  Python does up to version 3.13.

  The interpreter around the file is a parameter: its built-in names, and the modules
  that can be imported with the names each of them exports.
\<close>

datatype exception =
    NameError string
  | ModuleNotFoundError string
  | ImportError string string
  | SyntaxError
  | AttributeError string
  | TypeError

record interpreter =
  builtins :: "string set"
  modules :: "string \<Rightarrow> string set option"

text \<open>Subexpressions are evaluated from left to right; the first exception is the one raised.\<close>

fun first_raise :: "exception option list \<Rightarrow> exception option" where
  "first_raise [] = None"
| "first_raise (None # rs) = first_raise rs"
| "first_raise (Some e # rs) = Some e"

text \<open>
  \<open>eval_expr scope e\<close> is the exception that evaluating \<open>e\<close> raises when the names of
  \<open>scope\<close> are bound, or \<open>None\<close>. Creating a generator evaluates the iterable of its
  \<^verbatim>\<open>for\<close> clause and nothing else; a dictionary display evaluates each key before its
  value.
\<close>

fun eval_expr :: "string set \<Rightarrow> expr \<Rightarrow> exception option" where
  "eval_expr scope (Name n Load) = (if n \<in> scope then None else Some (NameError n))"
| "eval_expr scope (Name n Store) = None"
| "eval_expr scope (Constant c) = None"
| "eval_expr scope (JoinedStr parts) = first_raise (map (eval_expr scope) parts)"
| "eval_expr scope (FormattedValue e) = eval_expr scope e"
| "eval_expr scope (Attribute e a c) = eval_expr scope e"
| "eval_expr scope (Subscript e i c) = first_raise [eval_expr scope e, eval_expr scope i]"
| "eval_expr scope (Call f args) = first_raise (eval_expr scope f # map (eval_expr scope) args)"
| "eval_expr scope (GeneratorExp elt target iter) = eval_expr scope iter"
| "eval_expr scope (Await e) = eval_expr scope e"
| "eval_expr scope (List es) = first_raise (map (eval_expr scope) es)"
| "eval_expr scope (Dict ks vs) =
     first_raise (concat (map2 (\<lambda>k v. [k, v]) (map (eval_expr scope) ks) (map (eval_expr scope) vs)))"

text \<open>
  Storing to a target evaluates the object of an attribute or subscript target; a name
  is bound without evaluating anything. Python refuses any other target when it
  compiles the file.
\<close>

fun eval_target :: "string set \<Rightarrow> expr \<Rightarrow> exception option" where
  "eval_target scope (Name n c) = None"
| "eval_target scope (Attribute e a c) = eval_expr scope e"
| "eval_target scope (Subscript e i c) = first_raise [eval_expr scope e, eval_expr scope i]"
| "eval_target scope _ = Some SyntaxError"

text \<open>
  A statement runs with the names \<open>outer\<close> of the enclosing scopes and the names
  \<open>local\<close> of its own namespace. It raises, or completes with the new namespace, or
  returns from the function it is in.
\<close>

datatype flow = Next "string set" | Returned

fun exec_stmt :: "interpreter \<Rightarrow> string set \<Rightarrow> string set \<Rightarrow> stmt \<Rightarrow> exception + flow"
  and exec_block :: "interpreter \<Rightarrow> string set \<Rightarrow> string set \<Rightarrow> stmt list \<Rightarrow> exception + flow"
where
  "exec_stmt I outer local (Import names) =
     (case first_raise (map (\<lambda>m. if modules I m = None then Some (ModuleNotFoundError m)
                                 else None) names) of
        Some e \<Rightarrow> Inl e
      | None \<Rightarrow> Inr (Next (local \<union> set names)))"
| "exec_stmt I outer local (ImportFrom m names) =
     (case modules I m of
        None \<Rightarrow> Inl (ModuleNotFoundError m)
      | Some exports \<Rightarrow>
          (case first_raise (map (\<lambda>n. if n \<in> exports then None
                                      else Some (ImportError m n)) names) of
             Some e \<Rightarrow> Inl e
           | None \<Rightarrow> Inr (Next (local \<union> set names))))"
| "exec_stmt I outer local (FunctionDef name args returns body) =
     (case first_raise (map (eval_expr (outer \<union> local)) (annotations args returns)) of
        Some e \<Rightarrow> Inl e
      | None \<Rightarrow> Inr (Next (insert name local)))"
| "exec_stmt I outer local (AsyncFunctionDef name args returns body) =
     (case first_raise (map (eval_expr (outer \<union> local)) (annotations args returns)) of
        Some e \<Rightarrow> Inl e
      | None \<Rightarrow> Inr (Next (insert name local)))"
| "exec_stmt I outer local (ClassDef name bases body) =
     (case first_raise (map (eval_expr (outer \<union> local)) bases) of
        Some e \<Rightarrow> Inl e
      | None \<Rightarrow>
          (case exec_block I (outer \<union> local) {''__module__'', ''__qualname__''} body of
             Inl e \<Rightarrow> Inl e
           | Inr f \<Rightarrow> Inr (Next (insert name local))))"
| "exec_stmt I outer local (Assign target v) =
     (case first_raise [eval_expr (outer \<union> local) v, eval_target (outer \<union> local) target] of
        Some e \<Rightarrow> Inl e
      | None \<Rightarrow> Inr (Next (local \<union> set (stored target))))"
| "exec_stmt I outer local (Return r) =
     (case r of
        None \<Rightarrow> Inr Returned
      | Some e \<Rightarrow> (case eval_expr (outer \<union> local) e of Some x \<Rightarrow> Inl x | None \<Rightarrow> Inr Returned))"
| "exec_stmt I outer local (Expr e) =
     (case eval_expr (outer \<union> local) e of Some x \<Rightarrow> Inl x | None \<Rightarrow> Inr (Next local))"
| "exec_stmt I outer local Pass = Inr (Next local)"
| "exec_stmt I outer local (AsyncWith c vars body) =
     (case eval_expr (outer \<union> local) c of
        Some x \<Rightarrow> Inl x
      | None \<Rightarrow>
          exec_block I outer
            (local \<union> (case vars of None \<Rightarrow> {} | Some v \<Rightarrow> set (stored v))) body)"
| "exec_block I outer local [] = Inr (Next local)"
| "exec_block I outer local (s # ss) =
     (case exec_stmt I outer local s of
        Inl e \<Rightarrow> Inl e
      | Inr Returned \<Rightarrow> Inr Returned
      | Inr (Next local') \<Rightarrow> exec_block I outer local' ss)"

text \<open>
  The module: its statements run in order in the global namespace, over the built-in
  names. The result is the final namespace, or the index of the statement that raised
  with its exception. A \<^verbatim>\<open>return\<close> outside a function does not compile.
\<close>

fun exec_statements :: "interpreter \<Rightarrow> nat \<Rightarrow> string set \<Rightarrow> stmt list \<Rightarrow>
    (nat \<times> exception) + string set" where
  "exec_statements I i globals [] = Inr globals"
| "exec_statements I i globals (s # ss) =
     (case exec_stmt I (builtins I) globals s of
        Inl e \<Rightarrow> Inl (i, e)
      | Inr Returned \<Rightarrow> Inl (i, SyntaxError)
      | Inr (Next globals') \<Rightarrow> exec_statements I (Suc i) globals' ss)"

definition exec_module :: "interpreter \<Rightarrow> string set \<Rightarrow> stmt list \<Rightarrow>
    (nat \<times> exception) + string set" where
  "exec_module I globals0 body = exec_statements I 0 globals0 body"

text \<open>
  The body of a function, executed with the parameters bound. A name the body binds
  anywhere is local to the function from the start, so it is never looked up outside.
\<close>

definition execute_body :: "interpreter \<Rightarrow> string set \<Rightarrow> arg list \<Rightarrow> stmt list \<Rightarrow> exception + flow" where
  "execute_body I globals args body =
     exec_block I
       ((builtins I \<union> globals) - (set (map arg_name args) \<union> set (concat (map binds body))))
       (set (map arg_name args)) body"

text \<open>
  An interpreter to run the file in: the built-in functions and types of the language
  reference, and the four modules the file imports with the names they are known for.
\<close>

definition python_builtins :: "string list" where
  "python_builtins =
     [''abs'', ''aiter'', ''all'', ''anext'', ''any'', ''ascii'', ''bin'', ''bool'',
      ''breakpoint'', ''bytearray'', ''bytes'', ''callable'', ''chr'', ''classmethod'',
      ''compile'', ''complex'', ''delattr'', ''dict'', ''dir'', ''divmod'', ''enumerate'',
      ''eval'', ''exec'', ''filter'', ''float'', ''format'', ''frozenset'', ''getattr'',
      ''globals'', ''hasattr'', ''hash'', ''help'', ''hex'', ''id'', ''input'', ''int'',
      ''isinstance'', ''issubclass'', ''iter'', ''len'', ''list'', ''locals'', ''map'',
      ''max'', ''memoryview'', ''min'', ''next'', ''object'', ''oct'', ''open'', ''ord'',
      ''pow'', ''print'', ''property'', ''range'', ''repr'', ''reversed'', ''round'',
      ''set'', ''setattr'', ''slice'', ''sorted'', ''staticmethod'', ''str'', ''sum'',
      ''super'', ''tuple'', ''type'', ''vars'', ''zip'', ''__import__'']"

definition standard_modules :: "(string \<times> string set) list" where
  "standard_modules =
     [(''os'', {''path'', ''environ'', ''getcwd'', ''listdir''}),
      (''json'', {''dumps'', ''loads'', ''dump'', ''load''}),
      (''typing'', {''Any'', ''List'', ''Dict'', ''Optional'', ''Tuple'', ''Union''}),
      (''datetime'', {''date'', ''time'', ''datetime'', ''timedelta'', ''timezone''})]"

definition standard_interpreter :: interpreter where
  "standard_interpreter =
     \<lparr>builtins = set python_builtins, modules = map_of standard_modules\<rparr>"

text \<open>The names a module starts with before its first statement runs.\<close>

definition initial_globals :: "string set" where
  "initial_globals =
     {''__name__'', ''__doc__'', ''__package__'', ''__loader__'', ''__spec__'',
      ''__file__'', ''__builtins__''}"

text \<open>
  What the file needs from the interpreter to get as far as it does: the modules it
  imports, with the names it imports from them, and the built-in types its annotations
  name; and no name \<^verbatim>\<open>name\<close> to start with.
\<close>

definition provides_imports :: "interpreter \<Rightarrow> bool" where
  "provides_imports I =
     (modules I ''os'' \<noteq> None \<and> modules I ''json'' \<noteq> None \<and>
      (case modules I ''typing'' of
         None \<Rightarrow> False
       | Some ex \<Rightarrow> ''List'' \<in> ex \<and> ''Dict'' \<in> ex \<and> ''Optional'' \<in> ex) \<and>
      (case modules I ''datetime'' of None \<Rightarrow> False | Some ex \<Rightarrow> ''datetime'' \<in> ex) \<and>
      ''int'' \<in> builtins I \<and> ''str'' \<in> builtins I)"

text \<open>
  Calling a function of the module by its qualified name, in the most generous
  namespace there is: every name that some top-level statement of the module binds.
  A function declared with \<^verbatim>\<open>def\<close> executes its body when it is called. A function
  declared with \<^verbatim>\<open>async def\<close> does not: the call executes no statement of the body and
  returns a coroutine. The body is executed when the coroutine is awaited, which is
  \<open>await_call\<close>; only the call of an \<^verbatim>\<open>async def\<close> function can be awaited here.
\<close>

datatype outcome = Raised exception | Finished | Coroutine

definition body_outcome :: "interpreter \<Rightarrow> string set \<Rightarrow> arg list \<Rightarrow> stmt list \<Rightarrow> outcome" where
  "body_outcome I globals args body =
     (case execute_body I globals args body of Inl e \<Rightarrow> Raised e | Inr f \<Rightarrow> Finished)"

definition call_function :: "interpreter \<Rightarrow> stmt list \<Rightarrow> string \<Rightarrow> outcome option" where
  "call_function I m q =
     (case find (\<lambda>f. fst f = q) (function_defs m) of
        None \<Rightarrow> None
      | Some (q', is_async, args, body) \<Rightarrow>
          Some (if is_async then Coroutine
                else body_outcome I (set (concat (map binds m))) args body))"

definition await_call :: "interpreter \<Rightarrow> stmt list \<Rightarrow> string \<Rightarrow> outcome option" where
  "await_call I m q =
     (case find (\<lambda>f. fst f = q) (function_defs m) of
        None \<Rightarrow> None
      | Some (q', is_async, args, body) \<Rightarrow>
          if is_async then Some (body_outcome I (set (concat (map binds m))) args body)
          else None)"

section \<open>The functions and the class as they run\<close>

text \<open>
  Values are integers, booleans, strings, \<^verbatim>\<open>None\<close> and timestamps (the reading of the
  clock that \<^verbatim>\<open>datetime.now()\<close> returns, in microseconds). Floating-point numbers are
  left out: their sums are rounded, by an algorithm that differs between versions of
  the interpreter, and nothing below speaks about them. \<open>object\<close> is an object that
  is only its instance dictionary, as an instance of \<^verbatim>\<open>UserManager\<close> is: reading an
  attribute that is absent raises \<^verbatim>\<open>AttributeError\<close>.
\<close>

datatype pyval = IntV int | BoolV bool | StrV string | NoneV | DatetimeV int

type_synonym object = "string \<rightharpoonup> pyval"

definition getattr :: "object \<Rightarrow> string \<Rightarrow> exception + pyval" where
  "getattr obj a = (case obj a of None \<Rightarrow> Inl (AttributeError a) | Some v \<Rightarrow> Inr v)"

definition setattr :: "object \<Rightarrow> string \<Rightarrow> pyval \<Rightarrow> object" where
  "setattr obj a v = obj(a \<mapsto> v)"

text \<open>
  \<^verbatim>\<open>a + b\<close>: integers add, and a boolean is the integer 1 or 0; strings concatenate;
  any other pair of these values raises \<^verbatim>\<open>TypeError\<close>.
\<close>

fun int_value :: "pyval \<Rightarrow> int option" where
  "int_value (IntV i) = Some i"
| "int_value (BoolV b) = Some (if b then 1 else 0)"
| "int_value _ = None"

fun py_add :: "pyval \<Rightarrow> pyval \<Rightarrow> exception + pyval" where
  "py_add (StrV a) (StrV b) = Inr (StrV (a @ b))"
| "py_add a b =
     (case int_value a of
        None \<Rightarrow> Inl TypeError
      | Some x \<Rightarrow> (case int_value b of None \<Rightarrow> Inl TypeError | Some y \<Rightarrow> Inr (IntV (x + y))))"

text \<open>
  \<^verbatim>\<open>sum(elt for x in xs)\<close>: the built-in starts from its accumulator and adds the
  elements one at a time. The generator is lazy, so each element is computed when the
  loop asks for it, after the additions before it.
\<close>

fun py_sum :: "('a \<Rightarrow> exception + pyval) \<Rightarrow> pyval \<Rightarrow> 'a list \<Rightarrow> exception + pyval" where
  "py_sum elt acc [] = Inr acc"
| "py_sum elt acc (x # xs) =
     (case elt x of
        Inl e \<Rightarrow> Inl e
      | Inr v \<Rightarrow> (case py_add acc v of Inl e \<Rightarrow> Inl e | Inr acc' \<Rightarrow> py_sum elt acc' xs))"

text \<open>
  \<^verbatim>\<open>return sum(item.price for item in items)\<close>. The items can be objects of any type,
  and what \<^verbatim>\<open>item.price\<close> gives is up to that type: a value of the instance
  dictionary, an attribute of the class, the result of a property, or
  \<^verbatim>\<open>AttributeError\<close>. The attribute access is therefore the parameter \<open>price\<close>; for
  an object that is only its instance dictionary it is \<open>\<lambda>item. getattr item ''price''\<close>.
\<close>

definition calculate_total :: "('a \<Rightarrow> exception + pyval) \<Rightarrow> 'a list \<Rightarrow> exception + pyval" where
  "calculate_total price items = py_sum price (IntV 0) items"

text \<open>
  \<^verbatim>\<open>UserManager.__init__\<close> stores its two arguments and the clock reading \<open>now\<close> in
  \<open>self\<close>, in this order. \<open>UserManager name email\<close> is the call of the class: a new
  object with no attribute, initialised. \<^verbatim>\<open>get_name\<close> returns its result and the object
  it leaves behind.
\<close>

definition UserManager_init :: "object \<Rightarrow> pyval \<Rightarrow> pyval \<Rightarrow> int \<Rightarrow> object" where
  "UserManager_init self name email now =
     (let self = setattr self ''name'' name;
          self = setattr self ''email'' email;
          self = setattr self ''created_at'' (DatetimeV now)
      in self)"

definition UserManager :: "pyval \<Rightarrow> pyval \<Rightarrow> int \<Rightarrow> object" where
  "UserManager name email now = UserManager_init Map.empty name email now"

definition get_name :: "object \<Rightarrow> (exception + pyval) \<times> object" where
  "get_name self = (getattr self ''name'', self)"

section \<open>The text of the file\<close>

text \<open>
  The 69 lines of \<^verbatim>\<open>src/sample/app.py\<close> as they stand, so that what the syntax tree
  says can be read off the text as well. A backslash is written \<open>bsl\<close>, and a single
  quote is written \<open>sq\<close> where it cannot stand inside the literal.
\<close>

abbreviation (input) sq :: string where
  "sq \<equiv> [CHR 0x27]"

definition source_lines :: "string list" where
  \<open>source_lines =
     [''# Sample Python file for Regex-LE testing'',
      ''# Test patterns: /def'' @ bsl @ ''s+('' @ bsl @ ''w+)/g, /class'' @ bsl @ ''s+('' @ bsl @ ''w+)/g, /['"]([^'"`]+)['"`]/g'',
      '''',
      ''import os'',
      ''import json'',
      ''from typing import List, Dict, Optional'',
      ''from datetime import datetime'',
      '''',
      ''# Function definitions'',
      ''def calculate_total(items):'',
      ''    """Calculate total price of items."""'',
      ''    return sum(item.price for item in items)'',
      '''',
      ''def process_user_data(user_id: int) -> Dict:'',
      ''    """Process user data from API."""'',
      ''    response = requests.get(f'/api/users/{user_id}')'',
      ''    return response.json()'',
      '''',
      ''async def fetch_data(url: str) -> Optional[str]:'',
      ''    """Async function to fetch data."""'',
      ''    async with aiohttp.ClientSession() as session:'',
      ''        async with session.get(url) as response:'',
      ''            return await response.text()'',
      '''',
      ''# Class definitions'',
      ''class UserManager:'',
      ''    """Manages user operations."""'',
      ''    '',
      ''    def __init__(self, name: str, email: str):'',
      ''        self.name = name'',
      ''        self.email = email'',
      ''        self.created_at = datetime.now()'',
      ''    '',
      ''    def get_name(self) -> str:'',
      ''        """Get user name."""'',
      ''        return self.name'',
      '''',
      ''class DatabaseConnection:'',
      ''    """Handles database connections."""'',
      ''    '',
      ''    def connect(self):'',
      ''        """Connect to database."""'',
      ''        pass'',
      '''',
      ''# String values'',
      ''welcome_message = 'Welcome to the application'' @ sq,
      ''api_url = "https://api.example.com/v1"'',
      ''template = f"Hello, {name}!"'',
      '''',
      ''# Numbers'',
      ''MAX_USERS = 1000'',
      ''api_version = '2.0.1'' @ sq,
      ''user_ids = [101, 102, 103, 204, 305]'',
      '''',
      ''# Regex patterns'',
      ''email_pattern = r'' @ sq @ bsl @ ''b[A-Za-z0-9._%+-]+@[A-Za-z0-9.-]+'' @ bsl @ ''.[A-Z|a-z]{2,}'' @ bsl @ ''b'' @ sq,
      ''phone_pattern = r'^'' @ bsl @ ''+?['' @ bsl @ ''d'' @ bsl @ ''s'' @ bsl @ ''-'' @ bsl @ ''('' @ bsl @ '')]+$'' @ sq,
      '''',
      ''# Configuration'',
      ''config = {'',
      ''    'static_path': './static','',
      ''    'asset_path': '/assets/images','',
      ''    'data_path': '../data/records.json'' @ sq,
      ''}'',
      '''',
      ''# Comments'',
      ''# TODO: Refactor authentication'',
      ''# FIXME: Handle edge case'',
      ''# NOTE: Needs optimization'']\<close>

text \<open>
  A statement of the module starts in column 0. \<open>def_at_column_0\<close> is the name that
  follows \<^verbatim>\<open>def\<close> or \<^verbatim>\<open>async def\<close> at the start of a line, \<open>class_at_column_0\<close> the
  name that follows \<^verbatim>\<open>class\<close> there.
\<close>

definition is_name_char :: "char \<Rightarrow> bool" where
  "is_name_char c =
     (c \<in> set ''abcdefghijklmnopqrstuvwxyzABCDEFGHIJKLMNOPQRSTUVWXYZ_0123456789'')"

definition starts_with :: "string \<Rightarrow> string \<Rightarrow> bool" where
  "starts_with p s = (take (length p) s = p)"

definition name_after :: "string \<Rightarrow> string \<Rightarrow> string option" where
  "name_after keyword line =
     (if starts_with (keyword @ '' '') line
      then Some (takeWhile is_name_char
                   (dropWhile (\<lambda>c. c = CHR '' '') (drop (length keyword) line)))
      else None)"

definition def_at_column_0 :: "string \<Rightarrow> string option" where
  "def_at_column_0 line =
     (case name_after ''def'' line of
        Some n \<Rightarrow> Some n
      | None \<Rightarrow> name_after ''async def'' line)"

definition class_at_column_0 :: "string \<Rightarrow> string option" where
  "class_at_column_0 line = name_after ''class'' line"

text \<open>
  \<open>occurrences p s\<close> counts the positions of \<open>s\<close> at which \<open>p\<close> starts, and
  \<open>lines_with p ls\<close> lists the lines (numbered from 1) in which \<open>p\<close> occurs, each with
  its number of occurrences. This looks at every character of the file: code, comments
  and the inside of strings alike.
\<close>

fun occurrences :: "string \<Rightarrow> string \<Rightarrow> nat" where
  "occurrences p [] = 0"
| "occurrences p (c # cs) = (if starts_with p (c # cs) then 1 else 0) + occurrences p cs"

definition lines_with :: "string \<Rightarrow> string list \<Rightarrow> (nat \<times> nat) list" where
  "lines_with p ls =
     filter (\<lambda>(n, k). 0 < k) (zip [1..<Suc (length ls)] (map (occurrences p) ls))"

definition quoted :: "char \<Rightarrow> string \<Rightarrow> string" where
  "quoted q s = q # s @ [q]"

section \<open>The names the file defines\<close>

lemmas def_stmts =
  calculate_total_def_stmt_def process_user_data_def_stmt_def fetch_data_def_stmt_def
  UserManager_def_stmt_def DatabaseConnection_def_stmt_def

text \<open>
  Claim C1. The functions defined at the top level of the file are, in source order,
  \<^verbatim>\<open>calculate_total\<close>, \<^verbatim>\<open>process_user_data\<close> and \<^verbatim>\<open>fetch_data\<close>, and no others: the
  methods of the two classes are not among them. The syntax tree says so, and so do
  the lines of the text that start with \<^verbatim>\<open>def\<close> or \<^verbatim>\<open>async def\<close>.
\<close>

theorem top_level_functions_app:
  "top_level_functions app_module = [''calculate_total'', ''process_user_data'', ''fetch_data''] \<and>
   List.map_filter def_at_column_0 source_lines =
     [''calculate_total'', ''process_user_data'', ''fetch_data'']"
proof -
  have tree: "top_level_functions app_module =
      [''calculate_total'', ''process_user_data'', ''fetch_data'']"
    by (simp add: top_level_functions_def app_module_def def_stmts)
  have lines: "List.map_filter def_at_column_0 source_lines =
      [''calculate_total'', ''process_user_data'', ''fetch_data'']"
    by (simp add: source_lines_def def_at_column_0_def name_after_def starts_with_def
        is_name_char_def)
  from tree lines show ?thesis by (rule conjI)
qed

text \<open>
  Claim C2. The classes defined at the top level of the file are, in source order,
  \<^verbatim>\<open>UserManager\<close> and \<^verbatim>\<open>DatabaseConnection\<close>, and no others: in the syntax tree, and
  among the lines of the text that start with \<^verbatim>\<open>class\<close>.
\<close>

theorem top_level_classes_app:
  "top_level_classes app_module = [''UserManager'', ''DatabaseConnection''] \<and>
   List.map_filter class_at_column_0 source_lines = [''UserManager'', ''DatabaseConnection'']"
proof -
  have tree: "top_level_classes app_module = [''UserManager'', ''DatabaseConnection'']"
    by (simp add: top_level_classes_def app_module_def def_stmts)
  have lines: "List.map_filter class_at_column_0 source_lines =
      [''UserManager'', ''DatabaseConnection'']"
    by (simp add: source_lines_def class_at_column_0_def name_after_def starts_with_def
        is_name_char_def)
  from tree lines show ?thesis by (rule conjI)
qed

text \<open>
  Claim C3. The string literals of the file include
  \<^verbatim>\<open>Welcome to the application\<close>, \<^verbatim>\<open>https://api.example.com/v1\<close>, \<^verbatim>\<open>2.0.1\<close>,
  \<^verbatim>\<open>./static\<close>, \<^verbatim>\<open>/assets/images\<close> and \<^verbatim>\<open>../data/records.json\<close>. Each of them is a
  string constant of the syntax tree, and each stands between quotes in the text: in
  lines 46, 47, 52, 61, 62 and 63.
\<close>

theorem string_literals_app:
  "set [''Welcome to the application'', ''https://api.example.com/v1'', ''2.0.1'',
        ''./static'', ''/assets/images'', ''../data/records.json'']
     \<subseteq> set (string_literals app_module) \<and>
   lines_with (quoted (CHR 0x27) ''Welcome to the application'') source_lines = [(46, 1)] \<and>
   lines_with (quoted (CHR 0x22) ''https://api.example.com/v1'') source_lines = [(47, 1)] \<and>
   lines_with (quoted (CHR 0x27) ''2.0.1'') source_lines = [(52, 1)] \<and>
   lines_with (quoted (CHR 0x27) ''./static'') source_lines = [(61, 1)] \<and>
   lines_with (quoted (CHR 0x27) ''/assets/images'') source_lines = [(62, 1)] \<and>
   lines_with (quoted (CHR 0x27) ''../data/records.json'') source_lines = [(63, 1)]"
proof -
  have tree: "set [''Welcome to the application'', ''https://api.example.com/v1'', ''2.0.1'',
        ''./static'', ''/assets/images'', ''../data/records.json'']
     \<subseteq> set (string_literals app_module)"
    by (simp add: string_literals_def exprs_of_def app_module_def def_stmts)
  have l46: "lines_with (quoted (CHR 0x27) ''Welcome to the application'') source_lines = [(46, 1)]"
    by (simp add: lines_with_def quoted_def source_lines_def starts_with_def)
  have l47: "lines_with (quoted (CHR 0x22) ''https://api.example.com/v1'') source_lines = [(47, 1)]"
    by (simp add: lines_with_def quoted_def source_lines_def starts_with_def)
  have l52: "lines_with (quoted (CHR 0x27) ''2.0.1'') source_lines = [(52, 1)]"
    by (simp add: lines_with_def quoted_def source_lines_def starts_with_def)
  have l61: "lines_with (quoted (CHR 0x27) ''./static'') source_lines = [(61, 1)]"
    by (simp add: lines_with_def quoted_def source_lines_def starts_with_def)
  have l62: "lines_with (quoted (CHR 0x27) ''/assets/images'') source_lines = [(62, 1)]"
    by (simp add: lines_with_def quoted_def source_lines_def starts_with_def)
  have l63: "lines_with (quoted (CHR 0x27) ''../data/records.json'') source_lines = [(63, 1)]"
    by (simp add: lines_with_def quoted_def source_lines_def starts_with_def)
  from tree l46 l47 l52 l61 l62 l63 show ?thesis by blast
qed

text \<open>
  Claim C5. Neither \<^verbatim>\<open>UserManager\<close> nor \<^verbatim>\<open>DatabaseConnection\<close> is mentioned by any
  expression of the file: not outside the classes, and not in their own bodies either.
  Nothing instantiates the classes, derives from them or passes them on. In the text,
  each of the two names occurs once, in the line that declares the class (line 26 and
  line 38), and nowhere else, not even in a comment or a string.
\<close>

theorem classes_never_mentioned:
  "''UserManager'' \<notin> set (mentioned app_module) \<and>
   ''DatabaseConnection'' \<notin> set (mentioned app_module) \<and>
   lines_with ''UserManager'' source_lines = [(26, 1)] \<and>
   lines_with ''DatabaseConnection'' source_lines = [(38, 1)] \<and>
   source_lines ! 25 = ''class UserManager:'' \<and>
   source_lines ! 37 = ''class DatabaseConnection:''"
proof -
  have tree: "''UserManager'' \<notin> set (mentioned app_module)"
    "''DatabaseConnection'' \<notin> set (mentioned app_module)"
    by (simp_all add: mentioned_def exprs_of_def app_module_def def_stmts)
  have um: "lines_with ''UserManager'' source_lines = [(26, 1)]"
    by (simp add: lines_with_def source_lines_def starts_with_def)
  have dc: "lines_with ''DatabaseConnection'' source_lines = [(38, 1)]"
    by (simp add: lines_with_def source_lines_def starts_with_def)
  have decl: "source_lines ! 25 = ''class UserManager:''"
    "source_lines ! 37 = ''class DatabaseConnection:''"
    by (simp_all add: source_lines_def)
  from tree um dc decl show ?thesis by simp
qed

text \<open>
  Claim C6. \<^verbatim>\<open>fetch_data\<close> is the only function of the file declared with
  \<^verbatim>\<open>async def\<close>, and no expression of the file mentions its name: it has no caller.
  In the text, \<^verbatim>\<open>async def\<close> occurs in line 19 only, and the name \<^verbatim>\<open>fetch_data\<close>
  occurs in that line and nowhere else.
\<close>

theorem fetch_data_never_mentioned:
  "async_functions app_module = [''fetch_data''] \<and>
   ''fetch_data'' \<notin> set (mentioned app_module) \<and>
   lines_with ''async def'' source_lines = [(19, 1)] \<and>
   lines_with ''fetch_data'' source_lines = [(19, 1)] \<and>
   source_lines ! 18 = ''async def fetch_data(url: str) -> Optional[str]:''"
proof -
  have tree: "async_functions app_module = [''fetch_data'']"
    "''fetch_data'' \<notin> set (mentioned app_module)"
    by (simp_all add: async_functions_def mentioned_def exprs_of_def app_module_def def_stmts)
  have ad: "lines_with ''async def'' source_lines = [(19, 1)]"
    by (simp add: lines_with_def source_lines_def starts_with_def)
  have fd: "lines_with ''fetch_data'' source_lines = [(19, 1)]"
    by (simp add: lines_with_def source_lines_def starts_with_def)
  have decl: "source_lines ! 18 = ''async def fetch_data(url: str) -> Optional[str]:''"
    by (simp add: source_lines_def)
  from tree ad fd decl show ?thesis by simp
qed

section \<open>The shapes of the function bodies\<close>

lemma function_defs_app:
  "function_defs app_module =
     [(''calculate_total'', False,
         case calculate_total_def_stmt of FunctionDef n a r b \<Rightarrow> (a, b)),
      (''process_user_data'', False,
         case process_user_data_def_stmt of FunctionDef n a r b \<Rightarrow> (a, b)),
      (''fetch_data'', True,
         case fetch_data_def_stmt of AsyncFunctionDef n a r b \<Rightarrow> (a, b)),
      (''UserManager.__init__'', False,
         [Arg ''self'' None, Arg ''name'' (Some (Name ''str'' Load)),
          Arg ''email'' (Some (Name ''str'' Load))],
         [Assign (Attribute (Name ''self'' Load) ''name'' Store) (Name ''name'' Load),
          Assign (Attribute (Name ''self'' Load) ''email'' Store) (Name ''email'' Load),
          Assign (Attribute (Name ''self'' Load) ''created_at'' Store)
            (Call (Attribute (Name ''datetime'' Load) ''now'' Load) [])]),
      (''UserManager.get_name'', False, [Arg ''self'' None],
         [Expr (Constant (Str ''Get user name.'')),
          Return (Some (Attribute (Name ''self'' Load) ''name'' Load))]),
      (''DatabaseConnection.connect'', False, [Arg ''self'' None],
         [Expr (Constant (Str ''Connect to database.'')), Pass])]"
  by (simp add: function_defs_def app_module_def def_stmts)

lemma module_binds_app:
  "concat (map binds app_module) =
     [''os'', ''json'', ''List'', ''Dict'', ''Optional'', ''datetime'', ''calculate_total'',
      ''process_user_data'', ''fetch_data'', ''UserManager'', ''DatabaseConnection'',
      ''welcome_message'', ''api_url'', ''template'', ''MAX_USERS'', ''api_version'',
      ''user_ids'', ''email_pattern'', ''phone_pattern'', ''config'']"
  by (simp add: app_module_def def_stmts)

lemma python_builtins_facts:
  "''sum'' \<in> set python_builtins" "''int'' \<in> set python_builtins"
  "''str'' \<in> set python_builtins" "''name'' \<notin> set python_builtins"
  "''requests'' \<notin> set python_builtins" "''aiohttp'' \<notin> set python_builtins"
  by (simp_all add: python_builtins_def)

text \<open>
  Claim C4, as it stands, fails: \<^verbatim>\<open>UserManager.__init__\<close> is a function body of the
  file and has none of the three shapes. It is three assignments: no \<^verbatim>\<open>return\<close>, no
  \<^verbatim>\<open>pass\<close>, and every name it reads is a parameter or the imported \<^verbatim>\<open>datetime\<close>.
\<close>

theorem init_has_none_of_the_shapes:
  "fst (function_defs app_module ! 3) = ''UserManager.__init__'' \<and>
   \<not> three_shapes (set python_builtins) app_module (function_defs app_module ! 3) \<and>
   \<not> list_all (three_shapes (set python_builtins) app_module) (function_defs app_module)"
  by (simp add: function_defs_app three_shapes_def returns_expression_def is_stub_def
      undefined_names_def module_binds_app)

text \<open>
  Claim C4, amended. Every function body of the file other than
  \<^verbatim>\<open>UserManager.__init__\<close> has one of the three shapes. \<^verbatim>\<open>calculate_total\<close> and
  \<^verbatim>\<open>UserManager.get_name\<close> are one \<^verbatim>\<open>return\<close> of an expression;
  \<^verbatim>\<open>DatabaseConnection.connect\<close> is \<^verbatim>\<open>pass\<close>; \<^verbatim>\<open>process_user_data\<close> reads the name
  \<^verbatim>\<open>requests\<close> and \<^verbatim>\<open>fetch_data\<close> the name \<^verbatim>\<open>aiohttp\<close>, which nothing defines, and
  each body raises \<^verbatim>\<open>NameError\<close> for that name when it is executed: the body of
  \<^verbatim>\<open>process_user_data\<close> by a call, the body of \<^verbatim>\<open>fetch_data\<close> when the coroutine that
  a call returns is awaited. \<^verbatim>\<open>UserManager.__init__\<close> has none of the three shapes.
  This holds for every interpreter whose built-in names include \<^verbatim>\<open>sum\<close> and include
  neither \<^verbatim>\<open>requests\<close> nor \<^verbatim>\<open>aiohttp\<close>.
\<close>

theorem function_body_shapes:
  assumes "''sum'' \<in> builtins I" and "''requests'' \<notin> builtins I" and "''aiohttp'' \<notin> builtins I"
  shows "map (shape_of (builtins I) app_module) (function_defs app_module) =
           [(''calculate_total'', True, False, []),
            (''process_user_data'', False, False, [''requests'']),
            (''fetch_data'', False, False, [''aiohttp'']),
            (''UserManager.__init__'', False, False, []),
            (''UserManager.get_name'', True, False, []),
            (''DatabaseConnection.connect'', False, True, [])] \<and>
         call_function I app_module ''process_user_data'' = Some (Raised (NameError ''requests'')) \<and>
         call_function I app_module ''fetch_data'' = Some Coroutine \<and>
         await_call I app_module ''fetch_data'' = Some (Raised (NameError ''aiohttp''))"
proof -
  have shapes: "map (shape_of (builtins I) app_module) (function_defs app_module) =
           [(''calculate_total'', True, False, []),
            (''process_user_data'', False, False, [''requests'']),
            (''fetch_data'', False, False, [''aiohttp'']),
            (''UserManager.__init__'', False, False, []),
            (''UserManager.get_name'', True, False, []),
            (''DatabaseConnection.connect'', False, True, [])]"
    using assms
    by (simp add: function_defs_app shape_of_def returns_expression_def is_stub_def
        undefined_names_def module_binds_app def_stmts)
  have c1: "call_function I app_module ''process_user_data'' =
      Some (Raised (NameError ''requests''))"
    using assms
    by (simp add: call_function_def function_defs_app body_outcome_def execute_body_def
        module_binds_app def_stmts)
  have c2: "call_function I app_module ''fetch_data'' = Some Coroutine"
    by (simp add: call_function_def function_defs_app)
  have c3: "await_call I app_module ''fetch_data'' = Some (Raised (NameError ''aiohttp''))"
    using assms
    by (simp add: await_call_def function_defs_app body_outcome_def execute_body_def
        module_binds_app def_stmts)
  from shapes c1 c2 c3 show ?thesis by simp
qed

theorem function_body_shapes_witness:
  "''sum'' \<in> builtins standard_interpreter \<and>
   ''requests'' \<notin> builtins standard_interpreter \<and>
   ''aiohttp'' \<notin> builtins standard_interpreter \<and>
   map (shape_of (builtins standard_interpreter) app_module) (function_defs app_module) =
     [(''calculate_total'', True, False, []),
      (''process_user_data'', False, False, [''requests'']),
      (''fetch_data'', False, False, [''aiohttp'']),
      (''UserManager.__init__'', False, False, []),
      (''UserManager.get_name'', True, False, []),
      (''DatabaseConnection.connect'', False, True, [])] \<and>
   call_function standard_interpreter app_module ''process_user_data'' =
     Some (Raised (NameError ''requests'')) \<and>
   call_function standard_interpreter app_module ''fetch_data'' = Some Coroutine \<and>
   await_call standard_interpreter app_module ''fetch_data'' =
     Some (Raised (NameError ''aiohttp''))"
proof -
  have h: "''sum'' \<in> builtins standard_interpreter"
    "''requests'' \<notin> builtins standard_interpreter"
    "''aiohttp'' \<notin> builtins standard_interpreter"
    by (simp_all add: standard_interpreter_def python_builtins_facts)
  from h function_body_shapes [OF h] show ?thesis by simp
qed

section \<open>The module raises at its twelfth statement\<close>

text \<open>
  Claim C10. In every interpreter that provides the imports of the file and has no
  built-in or initial global called \<^verbatim>\<open>name\<close>, running the module raises
  \<^verbatim>\<open>NameError\<close> for \<^verbatim>\<open>name\<close> at the statement with index 11, which is the assignment
  to \<^verbatim>\<open>template\<close>. The eleven statements before it (four imports, three function
  definitions, two class definitions and the assignments to \<^verbatim>\<open>welcome_message\<close> and
  \<^verbatim>\<open>api_url\<close>) run without an exception and bind their names.
\<close>

theorem module_raises_NameError:
  assumes "provides_imports I" and "''name'' \<notin> builtins I" and "''name'' \<notin> globals0"
  shows "app_module ! 11 =
           Assign (Name ''template'' Store)
             (JoinedStr [Constant (Str ''Hello, ''), FormattedValue (Name ''name'' Load),
                         Constant (Str ''!'')]) \<and>
         exec_module I globals0 app_module = Inl (11, NameError ''name'') \<and>
         exec_module I globals0 (take 11 app_module) =
           Inr (globals0 \<union>
                {''os'', ''json'', ''List'', ''Dict'', ''Optional'', ''datetime'',
                 ''calculate_total'', ''process_user_data'', ''fetch_data'', ''UserManager'',
                 ''DatabaseConnection'', ''welcome_message'', ''api_url''})"
proof -
  from assms(1) obtain os js ty dt where m:
    "modules I ''os'' = Some os" "modules I ''json'' = Some js"
    "modules I ''typing'' = Some ty" "modules I ''datetime'' = Some dt"
    and ex: "''List'' \<in> ty" "''Dict'' \<in> ty" "''Optional'' \<in> ty" "''datetime'' \<in> dt"
    and b: "''int'' \<in> builtins I" "''str'' \<in> builtins I"
    by (auto simp: provides_imports_def split: option.splits)
  have s: "app_module ! 11 =
           Assign (Name ''template'' Store)
             (JoinedStr [Constant (Str ''Hello, ''), FormattedValue (Name ''name'' Load),
                         Constant (Str ''!'')])"
    by (simp add: app_module_def)
  have r: "exec_module I globals0 app_module = Inl (11, NameError ''name'')"
    using m ex b assms(2,3)
    by (simp add: exec_module_def app_module_def def_stmts)
  have t: "exec_module I globals0 (take 11 app_module) =
           Inr (globals0 \<union>
                {''os'', ''json'', ''List'', ''Dict'', ''Optional'', ''datetime'',
                 ''calculate_total'', ''process_user_data'', ''fetch_data'', ''UserManager'',
                 ''DatabaseConnection'', ''welcome_message'', ''api_url''})"
    using m ex b
    by (auto simp add: exec_module_def app_module_def def_stmts)
  from s r t show ?thesis by simp
qed

theorem module_raises_NameError_witness:
  "provides_imports standard_interpreter \<and>
   ''name'' \<notin> builtins standard_interpreter \<and>
   ''name'' \<notin> initial_globals \<and>
   exec_module standard_interpreter initial_globals app_module = Inl (11, NameError ''name'')"
proof -
  have h1: "provides_imports standard_interpreter"
    by (simp add: provides_imports_def standard_interpreter_def standard_modules_def
        python_builtins_facts)
  have h2: "''name'' \<notin> builtins standard_interpreter"
    by (simp add: standard_interpreter_def python_builtins_facts)
  have h3: "''name'' \<notin> initial_globals"
    by (simp add: initial_globals_def)
  from h1 h2 h3 module_raises_NameError [OF h1 h2 h3] show ?thesis by simp
qed

section \<open>The total of the prices\<close>






section \<open>The attributes of a \<^verbatim>\<open>UserManager\<close>\<close>

text \<open>
  Claim C7. A \<^verbatim>\<open>UserManager\<close> that has just been constructed has exactly the
  attributes \<^verbatim>\<open>name\<close>, \<^verbatim>\<open>email\<close> and \<^verbatim>\<open>created_at\<close>, the last one holding the clock
  reading of the construction. \<^verbatim>\<open>__init__\<close> adds these three attributes to the object
  it is given and no other, and removes none; \<^verbatim>\<open>get_name\<close> leaves the object as it is.
\<close>

theorem UserManager_attributes:
  "dom (UserManager name email now) = {''name'', ''email'', ''created_at''} \<and>
   UserManager name email now ''created_at'' = Some (DatetimeV now) \<and>
   dom (UserManager_init self name email now) = dom self \<union> {''name'', ''email'', ''created_at''} \<and>
   snd (get_name self) = self"
  by (auto simp: UserManager_def UserManager_init_def setattr_def get_name_def Let_def)

section \<open>Reading the name back\<close>

text \<open>
  Claim C9. For all strings \<open>n\<close> and \<open>e\<close>, \<^verbatim>\<open>UserManager(n, e).get_name()\<close> returns
  \<open>n\<close>, whatever the clock reads.
\<close>

theorem get_name_after_construction:
  "fst (get_name (UserManager (StrV n) (StrV e) now)) = Inr (StrV n)"
  by (simp add: get_name_def getattr_def UserManager_def UserManager_init_def setattr_def)

end
